theory Spec2Isabelle
  imports Complex_Main
begin

section \<open>The VLM service: report synthesis and anomaly explanation\<close>

text \<open>
  A shallow embedding of \<^verbatim>\<open>src/vlm-service/main.py\<close>.

  Conventions of the model.
  \<^item> A Python \<^verbatim>\<open>str\<close> is a \<^typ>\<open>string\<close> holding its UTF-8 bytes; the few non-ASCII
    characters of the source's literals are written out byte by byte.
  \<^item> A Python \<^verbatim>\<open>float\<close> is an IEEE double, kept as the exact rational it denotes (with
    negative zero, the infinities and NaN where a request can carry them). Every float
    operation of the source rounds its exact result to the nearest double, ties to even.
  \<^item> A Python \<^verbatim>\<open>dict\<close> whose iteration order is observable is an association list in
    insertion order, with unique keys.
  \<^item> An exception is a value: fallible code returns a sum, \<open>Inl\<close> the exception.
\<close>

subsection \<open>Rendering numbers\<close>

text \<open>\<^verbatim>\<open>str(n)\<close> for a non-negative integer: its decimal digits.\<close>

fun digit_char :: "nat \<Rightarrow> char" where
  "digit_char n = ''0123456789'' ! (n mod 10)"

function str_nat :: "nat \<Rightarrow> string" where
  "str_nat n = (if n < 10 then [digit_char n] else str_nat (n div 10) @ [digit_char n])"
  by pat_completeness auto
termination
  by (relation "measure (\<lambda>n. n)") auto

definition str_int :: "int \<Rightarrow> string" where
  "str_int i = (if i < 0 then ''-'' @ str_nat (nat (- i)) else str_nat (nat i))"

text \<open>Rounding to the nearest integer, ties to the even neighbour.\<close>

definition round_half_even :: "rat \<Rightarrow> int" where
  "round_half_even x =
     (let f = \<lfloor>x\<rfloor>; d = x - of_int f
      in if d < 1 / 2 then f
         else if 1 / 2 < d then f + 1
         else if even f then f else f + 1)"

text \<open>
  Rounding to the nearest double. A double is \<open>m * 2^q\<close> with \<open>m\<close> below \<open>2^53\<close> and
  \<open>q\<close> from \<open>-1074\<close> on: the quantum \<open>2^q\<close> of a number sits 52 binary places below its
  leading bit, and not below \<open>2^(-1074)\<close> (the subnormal range). \<open>bit_length\<close> is Python's
  \<^verbatim>\<open>int.bit_length\<close>; \<open>binade y\<close> is the exponent of the leading bit of a positive \<open>y\<close>.
  The overflow of the exponent range is not part of this function: the operations that
  can overflow test for it themselves.
\<close>

definition pow2 :: "int \<Rightarrow> rat" where
  "pow2 i = (if 0 \<le> i then 2 ^ nat i else 1 / 2 ^ nat (- i))"

function bit_length :: "int \<Rightarrow> int" where
  "bit_length n = (if n \<le> 0 then 0 else 1 + bit_length (n div 2))"
  by pat_completeness auto
termination
  by (relation "measure nat") auto

declare bit_length.simps [simp del]

definition binade :: "rat \<Rightarrow> int" where
  "binade y =
     (if 1 \<le> y then bit_length \<lfloor>y\<rfloor> - 1
      else - bit_length (\<lceil>1 / y\<rceil> - 1))"

definition round_to_double :: "rat \<Rightarrow> rat" where
  "round_to_double x =
     (if x = 0 then 0
      else let q = max (binade \<bar>x\<bar> - 52) (- 1074)
           in sgn x * (of_int (round_half_even (\<bar>x\<bar> / pow2 q)) * pow2 q))"

text \<open>
  The fixed-point presentation \<^verbatim>\<open>format(x, '.pf')\<close>: sign, integer digits, and \<open>p\<close>
  fraction digits (no point when \<open>p = 0\<close>). The digits are those of the exact value of
  the double, rounded half to even.
\<close>

definition zero_pad :: "nat \<Rightarrow> string \<Rightarrow> string" where
  "zero_pad w s = replicate (w - length s) (CHR ''0'') @ s"

definition format_fixed :: "nat \<Rightarrow> rat \<Rightarrow> string" where
  "format_fixed p x =
     (let n = nat (round_half_even (\<bar>x\<bar> * 10 ^ p));
          whole = str_nat (n div 10 ^ p);
          frac = (if p = 0 then [] else ''.'' @ zero_pad p (str_nat (n mod 10 ^ p)))
      in (if x < 0 then ''-'' else []) @ whole @ frac)"

subsection \<open>Timestamps\<close>

text \<open>
  A \<^verbatim>\<open>datetime.datetime\<close> as the database driver returns it for a timestamp column:
  the calendar fields and the time of day, no time zone.
\<close>

record datetime =
  year :: int
  month :: int
  day :: int
  hour :: int
  minute :: int
  second :: int
  microsecond :: int

definition is_leap :: "int \<Rightarrow> bool" where
  "is_leap y = (y mod 4 = 0 \<and> (y mod 100 \<noteq> 0 \<or> y mod 400 = 0))"

definition days_before_year :: "int \<Rightarrow> int" where
  "days_before_year y = (y - 1) * 365 + (y - 1) div 4 - (y - 1) div 100 + (y - 1) div 400"

definition days_before_month :: "int \<Rightarrow> int \<Rightarrow> int" where
  "days_before_month y m =
     [0, 31, 59, 90, 120, 151, 181, 212, 243, 273, 304, 334] ! (nat (m - 1) mod 12)
       + (if 2 < m \<and> is_leap y then 1 else 0)"

definition toordinal :: "datetime \<Rightarrow> int" where
  "toordinal t = days_before_year (year t) + days_before_month (year t) (month t) + day t"

text \<open>The position of a timestamp on the time line, in microseconds.\<close>

definition to_microseconds :: "datetime \<Rightarrow> int" where
  "to_microseconds t =
     ((toordinal t * 86400 + hour t * 3600 + minute t * 60 + second t) * 1000000)
       + microsecond t"

text \<open>
  \<^verbatim>\<open>(b - a).total_seconds()\<close>: the difference of two timestamps in seconds, a float: the
  whole number of microseconds divided by \<open>10^6\<close>, correctly rounded. (The timestamps of
  a \<^verbatim>\<open>datetime\<close>, years 1 to 9999, are less than \<open>10^18\<close> microseconds apart, far below
  the overflow bound.)
\<close>

definition total_seconds :: "datetime \<Rightarrow> datetime \<Rightarrow> rat" where
  "total_seconds b a =
     round_to_double (of_int (to_microseconds b - to_microseconds a) / 1000000)"

definition pad_int :: "nat \<Rightarrow> int \<Rightarrow> string" where
  "pad_int w i = zero_pad w (str_nat (nat i))"

text \<open>\<^verbatim>\<open>t.isoformat()\<close>: the microseconds are printed only when they are not zero.\<close>

definition isoformat :: "datetime \<Rightarrow> string" where
  "isoformat t =
     pad_int 4 (year t) @ ''-'' @ pad_int 2 (month t) @ ''-'' @ pad_int 2 (day t) @ ''T''
       @ pad_int 2 (hour t) @ '':'' @ pad_int 2 (minute t) @ '':'' @ pad_int 2 (second t)
       @ (if microsecond t = 0 then [] else ''.'' @ pad_int 6 (microsecond t))"

subsection \<open>Follow-up questions\<close>

text \<open>\<^verbatim>\<open>d.get(k, default)\<close> on a dictionary kept as an association list.\<close>

definition dict_get :: "('k \<times> 'v) list \<Rightarrow> 'k \<Rightarrow> 'v \<Rightarrow> 'v" where
  "dict_get d k dflt = (case map_of d k of None \<Rightarrow> dflt | Some v \<Rightarrow> v)"

definition questions :: "(string \<times> string list) list" where
  "questions =
     [(''off_screen_gaze'',
         [''Can you describe your workspace setup?'',
          ''Were you referencing any materials during the interview?'',
          ''Did you experience any technical difficulties?'']),
      (''object_phone'',
         [''Were you using your phone for anything during the interview?'',
          ''Do you recall checking your phone at any point?'',
          ''Was there an emergency or important notification?'']),
      (''object_paper'',
         [''Were you referencing notes or documentation during the interview?'',
          ''Can you describe what materials you had with you?'',
          ''Did you prepare written notes beforehand?'']),
      (''multi_person'',
         [''Was anyone else present during your interview?'',
          ''Did anyone enter your space during the session?'',
          ''Can you describe your interview environment?'']),
      (''face_absence'',
         [''Did you need to step away at any point?'',
          ''Were there any technical issues with your camera?'',
          ''Did you experience any interruptions?''])]"

definition get_followup_questions :: "string \<Rightarrow> string list" where
  "get_followup_questions anomaly_type =
     dict_get questions anomaly_type [''Can you provide context for this flag?'']"

subsection \<open>Recommendation policy\<close>

text \<open>
  A row of the \<^verbatim>\<open>anomalies\<close> table, with the columns the service reads.
\<close>

record anomaly =
  anomaly_type :: string
  severity :: string
  description :: string
  detected_at :: datetime

definition get_overall_recommendation :: "anomaly list \<Rightarrow> rat \<Rightarrow> string" where
  "get_overall_recommendation anomalies duration =
     (let high_severity = filter (\<lambda>a. severity a = ''high'') anomalies
      in if anomalies = [] then
           ''Session appeared normal. Candidate can proceed to next stage.''
         else if 3 \<le> length high_severity then
           ''Multiple high-severity flags detected. Recommend follow-up discussion with candidate.''
         else if 0 < length high_severity then
           ''Some concerns noted. Suggest brief follow-up to clarify flagged behaviors.''
         else
           ''Minor flags detected but likely not concerning. Candidate can proceed with note of minor observations.'')"

subsection \<open>Report aggregator\<close>

text \<open>
  A row of \<^verbatim>\<open>sessions\<close> (both timestamps may be NULL) and the one-row result of the
  aggregate query over \<^verbatim>\<open>events\<close> (MIN and MAX are NULL when there is no event).
\<close>

record session =
  started_at :: "datetime option"
  ended_at :: "datetime option"

record event_summary =
  event_count :: nat
  first_event :: "datetime option"
  last_event :: "datetime option"

record report_metrics =
  duration_minutes :: rat
  total_anomalies :: nat
  high_severity_count :: nat
  anomaly_breakdown :: "(string \<times> nat) list"
  metrics_event_count :: nat

record flag =
  flag_type :: string
  flag_description :: string
  flag_detected_at :: string

record report_summary =
  summary :: string
  metrics :: report_metrics
  high_priority_flags :: "flag list"

text \<open>
  \<^verbatim>\<open>d[k] = v\<close>: an existing key keeps its place, a new key goes to the end.
\<close>

fun dict_set :: "('k \<times> 'v) list \<Rightarrow> 'k \<Rightarrow> 'v \<Rightarrow> ('k \<times> 'v) list" where
  "dict_set [] k v = [(k, v)]"
| "dict_set ((k', v') # d) k v =
     (if k' = k then (k, v) # d else (k', v') # dict_set d k v)"

text \<open>
  The categorising loop, one anomaly per step, over the two accumulators
  \<^verbatim>\<open>anomaly_counts\<close> and \<^verbatim>\<open>high_severity\<close>.
\<close>

fun categorize ::
  "anomaly list \<Rightarrow> (string \<times> nat) list \<Rightarrow> anomaly list
     \<Rightarrow> (string \<times> nat) list \<times> anomaly list" where
  "categorize [] anomaly_counts high_severity = (anomaly_counts, high_severity)"
| "categorize (a # rest) anomaly_counts high_severity =
     categorize rest
       (dict_set anomaly_counts (anomaly_type a)
          (dict_get anomaly_counts (anomaly_type a) 0 + 1))
       (if severity a = ''high'' then high_severity @ [a] else high_severity)"

text \<open>\<^verbatim>\<open>sep.join(parts)\<close>.\<close>

fun join :: "string \<Rightarrow> string list \<Rightarrow> string" where
  "join sep [] = []"
| "join sep [p] = p"
| "join sep (p # q # ps) = p @ sep @ join sep (q # ps)"

definition newline :: string where
  "newline = [CHR 0x0A]"

definition warning_sign :: string where
  "warning_sign = [CHR 0xE2, CHR 0x9A, CHR 0xA0, CHR 0xEF, CHR 0xB8, CHR 0x8F]"

definition check_mark :: string where
  "check_mark = [CHR 0xE2, CHR 0x9C, CHR 0x93]"

definition memo_sign :: string where
  "memo_sign = [CHR 0xF0, CHR 0x9F, CHR 0x93, CHR 0x9D]"

definition generate_report_summary ::
  "session \<Rightarrow> anomaly list \<Rightarrow> event_summary \<Rightarrow> report_summary" where
  "generate_report_summary sess anomalies ev =
     (let duration =
            (case (ended_at sess, started_at sess) of
               (Some e, Some s) \<Rightarrow> round_to_double (total_seconds e s / 60)
             | _ \<Rightarrow> 0);
          (anomaly_counts, high_severity) = categorize anomalies [] [];
          summary_parts =
            [''Interview session completed with duration of '' @ format_fixed 1 duration
               @ '' minutes.'',
             ''Total of '' @ str_nat (length anomalies)
               @ '' behavioral flags detected during the session.'']
            @ (if high_severity \<noteq> [] then
                 [newline @ warning_sign @ ''  '' @ str_nat (length high_severity)
                    @ '' high-severity flags require attention:'']
                 @ map (\<lambda>a. ''  - '' @ description a) (take 3 high_severity)
               else [])
            @ (if anomaly_counts \<noteq> [] then
                 [newline @ ''Anomaly breakdown:'']
                 @ map (\<lambda>(atype, count). ''  - '' @ atype @ '': '' @ str_nat count
                          @ '' occurrences'') anomaly_counts
               else
                 [newline @ check_mark
                    @ '' No significant anomalies detected. Session appeared normal.''])
            @ [newline @ memo_sign @ '' Recommendation: ''
                 @ get_overall_recommendation anomalies duration]
      in \<lparr> summary = join newline summary_parts,
           metrics =
             \<lparr> duration_minutes = duration,
               total_anomalies = length anomalies,
               high_severity_count = length high_severity,
               anomaly_breakdown = anomaly_counts,
               metrics_event_count = event_count ev \<rparr>,
           high_priority_flags =
             map (\<lambda>a. \<lparr> flag_type = anomaly_type a,
                          flag_description = description a,
                          flag_detected_at = isoformat (detected_at a) \<rparr>) high_severity \<rparr>)"

subsection \<open>Explanation formatter\<close>

text \<open>
  The values a request's \<^verbatim>\<open>metrics\<close> mapping can hold: what the JSON parser produces.
  A float is a double: \<open>Finite x\<close> with \<open>x\<close> its exact value (positive zero is
  \<open>Finite 0\<close>), negative zero, an infinity or NaN.
\<close>

datatype pyfloat = Finite rat | NegZero | PosInf | NegInf | NaN

datatype jvalue =
    JNull
  | JBool bool
  | JInt int
  | JFloat pyfloat
  | JStr string
  | JArr "jvalue list"
  | JObj "(string \<times> jvalue) list"

text \<open>The exceptions of the model.\<close>

datatype exn =
    TypeError
  | ValueError
  | OverflowError
  | KeyError
  | DatabaseError string
  | HTTPException nat string

text \<open>
  A template is kept parsed: literal text and replacement fields, each field with its
  name and its format specification (none, \<^verbatim>\<open>.pf\<close> or \<^verbatim>\<open>.p%\<close>).
\<close>

datatype conversion = Plain | Fixed nat | Percent nat

datatype segment = Lit string | Field string conversion

definition apostrophe :: string where
  "apostrophe = [CHR 0x27]"

definition sigma :: string where
  "sigma = [CHR 0xCF, CHR 0x83]"

definition degree :: string where
  "degree = [CHR 0xC2, CHR 0xB0]"

definition ANOMALY_EXPLANATIONS :: "(string \<times> segment list) list" where
  "ANOMALY_EXPLANATIONS =
     [(''off_screen_gaze'',
         [Lit ''The candidate was looking away from the screen for '',
          Field ''rate'' (Percent 0), Lit '' of the last '', Field ''window'' Plain,
          Lit ''. This may indicate they were reading from notes, looking at another device, or distracted.'']),
      (''object_phone'',
         [Lit ''A phone or mobile device was detected in the candidate'', Lit apostrophe,
          Lit ''s hands or nearby for '', Field ''duration'' (Fixed 1),
          Lit '' seconds. This could indicate they were using the device during the interview.'']),
      (''object_paper'',
         [Lit ''Printed materials (paper or book) were visible for '',
          Field ''duration'' (Fixed 1),
          Lit '' seconds. This may indicate the candidate was referencing notes or documents.'']),
      (''multi_person'',
         [Lit ''Another person was detected entering the frame '', Field ''count'' Plain,
          Lit '' times. This could be someone assisting the candidate or an environmental factor.'']),
      (''face_absence'',
         [Lit ''The candidate left the frame for '', Field ''duration'' (Fixed 1),
          Lit '' seconds. This could indicate they stood up, moved away, or there was a technical issue.'']),
      (''excessive_head_movement'',
         [Lit ''Unusual head movement patterns were detected (yaw '', Lit sigma, Lit ''='',
          Field ''yaw'' (Fixed 1), Lit degree, Lit '', pitch '', Lit sigma, Lit ''='',
          Field ''pitch'' (Fixed 1), Lit degree,
          Lit ''). This may indicate nervousness, reading from multiple sources, or restlessness.''])]"

definition default_template :: "segment list" where
  "default_template =
     [Lit ''An anomaly of type '', Lit apostrophe, Field ''type'' Plain, Lit apostrophe,
      Lit '' was detected. Please review the session data.'']"

text \<open>
  \<^verbatim>\<open>str(v)\<close>. The text of a finite float, a list or a dict is Python's \<^verbatim>\<open>repr\<close>, whose
  digits and quoting are left to the parameter \<open>py_repr\<close>.
\<close>

fun py_str :: "(jvalue \<Rightarrow> string) \<Rightarrow> jvalue \<Rightarrow> string" where
  "py_str py_repr JNull = ''None''"
| "py_str py_repr (JBool b) = (if b then ''True'' else ''False'')"
| "py_str py_repr (JInt i) = str_int i"
| "py_str py_repr (JFloat NegZero) = ''-0.0''"
| "py_str py_repr (JFloat PosInf) = ''inf''"
| "py_str py_repr (JFloat NegInf) = ''-inf''"
| "py_str py_repr (JFloat NaN) = ''nan''"
| "py_str py_repr (JStr s) = s"
| "py_str py_repr v = py_repr v"

text \<open>
  An \<^verbatim>\<open>int\<close> is converted to a float before a float presentation is applied: to the
  nearest double. The conversion raises OverflowError from \<open>2^1024 - 2^970\<close> on, where
  rounding leaves the range of a double.
\<close>

definition int_to_float :: "int \<Rightarrow> exn + rat" where
  "int_to_float i =
     (if 2 ^ 1024 - 2 ^ 970 \<le> \<bar>i\<bar> then Inl OverflowError
      else Inr (round_to_double (of_int i)))"

text \<open>
  The double that a float operation returns for the exact result \<open>x\<close>: an infinity
  where rounding leaves the range, negative zero where a negative result rounds to zero.
\<close>

definition float_of_rat :: "rat \<Rightarrow> pyfloat" where
  "float_of_rat x =
     (if 2 ^ 1024 - 2 ^ 970 \<le> \<bar>x\<bar> then (if x < 0 then NegInf else PosInf)
      else let r = round_to_double x
           in if r = 0 \<and> x < 0 then NegZero else Finite r)"

text \<open>The product \<^verbatim>\<open>val * 100\<close> that the percent presentation computes, in doubles.\<close>

fun float_mul100 :: "pyfloat \<Rightarrow> pyfloat" where
  "float_mul100 (Finite x) = float_of_rat (100 * x)"
| "float_mul100 f = f"

fun format_float :: "nat \<Rightarrow> string \<Rightarrow> pyfloat \<Rightarrow> string" where
  "format_float p suffix (Finite x) = format_fixed p x @ suffix"
| "format_float p suffix NegZero = ''-'' @ format_fixed p 0 @ suffix"
| "format_float p suffix PosInf = ''inf'' @ suffix"
| "format_float p suffix NegInf = ''-inf'' @ suffix"
| "format_float p suffix NaN = ''nan'' @ suffix"

text \<open>
  The float that \<^verbatim>\<open>format(v, '.pf')\<close> and \<^verbatim>\<open>format(v, '.p%')\<close> present: defined on numbers
  (a bool is an int), ValueError on a string, TypeError on None, a list or a dict.
\<close>

fun to_float :: "jvalue \<Rightarrow> exn + pyfloat" where
  "to_float (JBool b) = Inr (Finite (if b then 1 else 0))"
| "to_float (JInt i) =
     (case int_to_float i of
        Inl e \<Rightarrow> Inl e
      | Inr x \<Rightarrow> Inr (Finite x))"
| "to_float (JFloat f) = Inr f"
| "to_float (JStr s) = Inl ValueError"
| "to_float v = Inl TypeError"

fun format_value :: "(jvalue \<Rightarrow> string) \<Rightarrow> conversion \<Rightarrow> jvalue \<Rightarrow> exn + string" where
  "format_value py_repr Plain v = Inr (py_str py_repr v)"
| "format_value py_repr (Fixed p) v =
     (case to_float v of
        Inl e \<Rightarrow> Inl e
      | Inr f \<Rightarrow> Inr (format_float p [] f))"
| "format_value py_repr (Percent p) v =
     (case to_float v of
        Inl e \<Rightarrow> Inl e
      | Inr f \<Rightarrow> Inr (format_float p ''%'' (float_mul100 f)))"

text \<open>
  \<^verbatim>\<open>template.format(**kwargs)\<close>: the fields are replaced from left to right, and the
  first one that cannot be formatted raises.
\<close>

fun str_format ::
  "(jvalue \<Rightarrow> string) \<Rightarrow> segment list \<Rightarrow> (string \<times> jvalue) list \<Rightarrow> exn + string" where
  "str_format py_repr [] kwargs = Inr []"
| "str_format py_repr (Lit s # rest) kwargs =
     (case str_format py_repr rest kwargs of
        Inl e \<Rightarrow> Inl e
      | Inr r \<Rightarrow> Inr (s @ r))"
| "str_format py_repr (Field name c # rest) kwargs =
     (case map_of kwargs name of
        None \<Rightarrow> Inl KeyError
      | Some v \<Rightarrow>
          (case format_value py_repr c v of
             Inl e \<Rightarrow> Inl e
           | Inr s \<Rightarrow>
               (case str_format py_repr rest kwargs of
                  Inl e \<Rightarrow> Inl e
                | Inr r \<Rightarrow> Inr (s @ r))))"

text \<open>The body of the \<^verbatim>\<open>try\<close> block of \<^verbatim>\<open>explain_anomaly\<close>.\<close>

definition format_explanation ::
  "(jvalue \<Rightarrow> string) \<Rightarrow> string \<Rightarrow> (string \<times> jvalue) list \<Rightarrow> exn + string" where
  "format_explanation py_repr atype request_metrics =
     (let template = dict_get ANOMALY_EXPLANATIONS atype default_template
      in if atype = ''off_screen_gaze'' then
           str_format py_repr template
             [(''rate'', dict_get request_metrics ''off_screen_rate'' (JInt 0)),
              (''window'', dict_get request_metrics ''window'' (JStr ''1min''))]
         else if atype \<in> set [''object_phone'', ''object_paper'', ''face_absence''] then
           str_format py_repr template
             [(''duration'', dict_get request_metrics ''duration_sec'' (JInt 0))]
         else if atype = ''multi_person'' then
           str_format py_repr template
             [(''count'', dict_get request_metrics ''detection_count'' (JInt 0))]
         else if atype = ''excessive_head_movement'' then
           str_format py_repr template
             [(''yaw'', dict_get request_metrics ''yaw_std'' (JInt 0)),
              (''pitch'', dict_get request_metrics ''pitch_std'' (JInt 0))]
         else
           str_format py_repr template [(''type'', JStr atype)])"

record explanation_response =
  response_anomaly_type :: string
  explanation :: string
  confidence :: rat
  evidence_bullets :: "string list"
  suggested_followup :: "string list"

text \<open>
  The handler. \<open>json_dumps\<close> stands for \<^verbatim>\<open>json.dumps\<close> on the metrics mapping, which
  is defined on everything the JSON parser produces. The confidence is the double that
  the literal \<^verbatim>\<open>0.85\<close> denotes.
\<close>

definition explain_anomaly ::
  "(jvalue \<Rightarrow> string) \<Rightarrow> ((string \<times> jvalue) list \<Rightarrow> string)
     \<Rightarrow> string \<Rightarrow> (string \<times> jvalue) list \<Rightarrow> string \<Rightarrow> exn + explanation_response" where
  "explain_anomaly py_repr json_dumps atype request_metrics request_detected_at =
     (let expl =
            (case format_explanation py_repr atype request_metrics of
               Inr s \<Rightarrow> s
             | Inl e \<Rightarrow> ''Anomaly detected: '' @ atype)
      in Inr \<lparr> response_anomaly_type = atype,
               explanation = expl,
               confidence = round_to_double (85 / 100),
               evidence_bullets =
                 [''Detected at '' @ request_detected_at,
                  ''Metrics: '' @ json_dumps request_metrics],
               suggested_followup = get_followup_questions atype \<rparr>)"

subsection \<open>Report generation against the database\<close>

text \<open>
  The database is a collaborator of the service. The model keeps the three tables the
  handler reads, the \<^verbatim>\<open>reports\<close> table it writes, and the number of connections
  that are open.
\<close>

record report_row =
  row_id :: nat
  row_session_id :: string
  row_generated_at :: datetime
  vlm_summary :: string
  row_metrics :: report_metrics
  report_type :: string

record database =
  sessions :: "(string \<times> session) list"
  anomalies_table :: "(string \<times> anomaly) list"
  events :: "(string \<times> datetime) list"
  reports :: "report_row list"
  open_connections :: nat

text \<open>
  The calls to the driver that can raise, and the environment of one request: which of
  those calls fail (and with which message), and the two clocks.
\<close>

datatype db_call =
  Connect | SelectSession | SelectAnomalies | SelectEvents | InsertReport | Commit

record environment =
  fault :: "db_call \<Rightarrow> string option"
  db_now :: datetime
  utc_now :: datetime

text \<open>The three queries.\<close>

definition select_session :: "database \<Rightarrow> string \<Rightarrow> session option" where
  "select_session db session_id = map_of (sessions db) session_id"

definition select_anomalies :: "database \<Rightarrow> string \<Rightarrow> anomaly list" where
  "select_anomalies db session_id =
     sort_key (\<lambda>a. to_microseconds (detected_at a))
       (map snd (filter (\<lambda>r. fst r = session_id) (anomalies_table db)))"

definition min_list_opt :: "datetime list \<Rightarrow> datetime option" where
  "min_list_opt ts =
     (case sort_key to_microseconds ts of [] \<Rightarrow> None | t # _ \<Rightarrow> Some t)"

definition max_list_opt :: "datetime list \<Rightarrow> datetime option" where
  "max_list_opt ts =
     (case rev (sort_key to_microseconds ts) of [] \<Rightarrow> None | t # _ \<Rightarrow> Some t)"

definition select_events :: "database \<Rightarrow> string \<Rightarrow> event_summary" where
  "select_events db session_id =
     (let ts = map snd (filter (\<lambda>r. fst r = session_id) (events db))
      in \<lparr> event_count = length ts,
           first_event = min_list_opt ts,
           last_event = max_list_opt ts \<rparr>)"

record report_response =
  response_report_id :: nat
  response_session_id :: string
  response_generated_at :: string
  response_summary :: report_summary

text \<open>
  The body of the \<^verbatim>\<open>try\<close> block of \<^verbatim>\<open>generate_report\<close>, statement by statement. It
  returns what it raised or returned, and the database as it left it. The inserted row
  becomes part of \<^verbatim>\<open>reports\<close> at the commit.
\<close>

definition report_body ::
  "environment \<Rightarrow> database \<Rightarrow> string \<Rightarrow> (exn + report_response) \<times> database" where
  "report_body env db session_id =
     (case fault env Connect of
        Some msg \<Rightarrow> (Inl (DatabaseError msg), db)
      | None \<Rightarrow>
     (let db1 = db\<lparr>open_connections := open_connections db + 1\<rparr> in
      case fault env SelectSession of
        Some msg \<Rightarrow> (Inl (DatabaseError msg), db1)
      | None \<Rightarrow>
     (case select_session db1 session_id of
        None \<Rightarrow> (Inl (HTTPException 404 ''Session not found''), db1)
      | Some sess \<Rightarrow>
     (case fault env SelectAnomalies of
        Some msg \<Rightarrow> (Inl (DatabaseError msg), db1)
      | None \<Rightarrow>
     (let anomalies = select_anomalies db1 session_id in
      case fault env SelectEvents of
        Some msg \<Rightarrow> (Inl (DatabaseError msg), db1)
      | None \<Rightarrow>
     (let ev = select_events db1 session_id;
          report = generate_report_summary sess anomalies ev in
      case fault env InsertReport of
        Some msg \<Rightarrow> (Inl (DatabaseError msg), db1)
      | None \<Rightarrow>
     (let row = \<lparr> row_id = Suc (length (reports db1)),
                  row_session_id = session_id,
                  row_generated_at = db_now env,
                  vlm_summary = summary report,
                  row_metrics = metrics report,
                  report_type = ''standard'' \<rparr> in
      case fault env Commit of
        Some msg \<Rightarrow> (Inl (DatabaseError msg), db1)
      | None \<Rightarrow>
     (let db2 = db1\<lparr>reports := reports db1 @ [row]\<rparr>;
          db3 = db2\<lparr>open_connections := open_connections db2 - 1\<rparr>
      in (Inr \<lparr> response_report_id = row_id row,
                 response_session_id = session_id,
                 response_generated_at = isoformat (utc_now env),
                 response_summary = report \<rparr>, db3)))))))))"

text \<open>
  \<^verbatim>\<open>str(e)\<close> of an exception: the driver's message, and for an HTTPException the
  status code and the detail.
\<close>

fun str_exn :: "exn \<Rightarrow> string" where
  "str_exn (DatabaseError msg) = msg"
| "str_exn (HTTPException status detail) = str_nat status @ '': '' @ detail"
| "str_exn e = []"

text \<open>
  The handler: whatever the body raises is caught by \<^verbatim>\<open>except Exception\<close> and raised
  again as an HTTPException with status 500.
\<close>

definition generate_report ::
  "environment \<Rightarrow> database \<Rightarrow> string \<Rightarrow> (exn + report_response) \<times> database" where
  "generate_report env db session_id =
     (case report_body env db session_id of
        (Inl e, db') \<Rightarrow>
          (Inl (HTTPException 500 (''Report generation failed: '' @ str_exn e)), db')
      | (Inr r, db') \<Rightarrow> (Inr r, db'))"

subsection \<open>Example data\<close>

text \<open>Concrete rows and requests, used to run the definitions on explicit inputs.\<close>

definition example_time :: "int \<Rightarrow> int \<Rightarrow> datetime" where
  "example_time h m =
     \<lparr> year = 2024, month = 1, day = 1, hour = h, minute = m, second = 0, microsecond = 0 \<rparr>"

definition example_anomaly :: "string \<Rightarrow> string \<Rightarrow> int \<Rightarrow> anomaly" where
  "example_anomaly atype sev m =
     \<lparr> anomaly_type = atype, severity = sev, description = ''seen: '' @ atype,
       detected_at = example_time 10 m \<rparr>"

definition example_session :: session where
  "example_session =
     \<lparr> started_at = Some (example_time 10 0), ended_at = Some (example_time 10 25) \<rparr>"

definition example_anomalies :: "anomaly list" where
  "example_anomalies =
     [example_anomaly ''object_phone'' ''high'' 1,
      example_anomaly ''off_screen_gaze'' ''medium'' 2,
      example_anomaly ''object_phone'' ''high'' 3,
      example_anomaly ''multi_person'' ''high'' 4,
      example_anomaly ''object_paper'' ''high'' 5]"

definition example_events :: event_summary where
  "example_events =
     \<lparr> event_count = 2, first_event = Some (example_time 10 1),
       last_event = Some (example_time 10 3) \<rparr>"

definition example_db :: database where
  "example_db =
     \<lparr> sessions = [(''s1'', example_session)],
       anomalies_table =
         [(''s1'', example_anomaly ''object_phone'' ''high'' 5),
          (''s1'', example_anomaly ''face_absence'' ''low'' 2)],
       events = [(''s1'', example_time 10 3), (''s1'', example_time 10 1)],
       reports = [],
       open_connections = 0 \<rparr>"

definition example_env :: environment where
  "example_env =
     \<lparr> fault = (\<lambda>c. None), db_now = example_time 11 0, utc_now = example_time 11 0 \<rparr>"

definition failing_env :: environment where
  "failing_env =
     \<lparr> fault = (\<lambda>c. if c = SelectAnomalies then Some ''server closed the connection''
                     else None),
       db_now = example_time 11 0, utc_now = example_time 11 0 \<rparr>"

section \<open>Properties\<close>

subsection \<open>Rounding to a double\<close>

lemma pow2_pos: "0 < pow2 i"
  by (simp add: pow2_def)

lemma pow2_powi: "pow2 i = 2 powi i"
  by (simp add: pow2_def power_int_def field_simps)

lemma pow2_add: "pow2 (i + j) = pow2 i * pow2 j"
  by (simp add: pow2_powi power_int_add)

lemma pow2_mono: "i \<le> j \<Longrightarrow> pow2 i \<le> pow2 j"
  by (simp add: pow2_powi power_int_increasing)

lemma bit_length_nonpos: "n \<le> 0 \<Longrightarrow> bit_length n = 0"
  by (subst bit_length.simps) simp

lemma bit_length_pos: "0 < n \<Longrightarrow> bit_length n = 1 + bit_length (n div 2)"
  by (subst bit_length.simps) simp

lemma bit_length_nonneg: "0 \<le> bit_length n"
proof (induction n rule: bit_length.induct)
  case (1 n)
  show ?case
  proof (cases "n \<le> 0")
    case True
    then show ?thesis by (simp add: bit_length_nonpos)
  next
    case False
    with "1.IH" show ?thesis by (simp add: bit_length_pos)
  qed
qed

lemma bit_length_lower: "0 < n \<Longrightarrow> 2 ^ nat (bit_length n - 1) \<le> n"
proof (induction n rule: bit_length.induct)
  case (1 n)
  show ?case
  proof (cases "n div 2 \<le> 0")
    case True
    with "1.prems" have n1: "n = 1" by linarith
    have "bit_length 1 = 1"
      by (simp add: bit_length_pos bit_length_nonpos)
    then show ?thesis by (simp add: n1)
  next
    case False
    then have pos: "0 < n div 2" by simp
    from "1.IH" pos "1.prems"
    have ih: "2 ^ nat (bit_length (n div 2) - 1) \<le> n div 2" by simp
    have bl: "1 \<le> bit_length (n div 2)"
      using pos bit_length_nonneg [of "n div 2 div 2"] by (simp add: bit_length_pos)
    have "bit_length n = 1 + bit_length (n div 2)" using "1.prems" by (simp add: bit_length_pos)
    then have "nat (bit_length n - 1) = Suc (nat (bit_length (n div 2) - 1))"
      using bl by simp
    then have "(2::int) ^ nat (bit_length n - 1) = 2 * 2 ^ nat (bit_length (n div 2) - 1)"
      by simp
    also have "\<dots> \<le> 2 * (n div 2)" using ih by simp
    also have "\<dots> \<le> n" by simp
    finally show ?thesis .
  qed
qed

lemma bit_length_upper: "n < 2 ^ nat (bit_length n)"
proof (induction n rule: bit_length.induct)
  case (1 n)
  show ?case
  proof (cases "n \<le> 0")
    case True
    then show ?thesis by (simp add: bit_length_nonpos)
  next
    case False
    from "1.IH" False have ih: "n div 2 < 2 ^ nat (bit_length (n div 2))" by simp
    have "nat (bit_length n) = Suc (nat (bit_length (n div 2)))"
      using False bit_length_nonneg [of "n div 2"] by (simp add: bit_length_pos)
    then have "(2::int) ^ nat (bit_length n) = 2 * 2 ^ nat (bit_length (n div 2))" by simp
    moreover have "n < 2 * (n div 2 + 1)" by presburger
    moreover have "n div 2 + 1 \<le> 2 ^ nat (bit_length (n div 2))" using ih by simp
    ultimately show ?thesis by linarith
  qed
qed

lemma binade_le:
  assumes "0 < y"
  shows "pow2 (binade y) \<le> y"
proof (cases "1 \<le> y")
  case True
  then have pos: "0 < \<lfloor>y\<rfloor>" by simp
  have b: "0 \<le> bit_length \<lfloor>y\<rfloor> - 1"
    using pos bit_length_nonneg [of "\<lfloor>y\<rfloor> div 2"] by (simp add: bit_length_pos)
  have "pow2 (binade y) = 2 ^ nat (bit_length \<lfloor>y\<rfloor> - 1)"
    using True b by (simp add: binade_def pow2_def)
  also have "\<dots> = of_int (2 ^ nat (bit_length \<lfloor>y\<rfloor> - 1))" by simp
  also have "\<dots> \<le> of_int \<lfloor>y\<rfloor>"
    using bit_length_lower [OF pos] by (simp only: of_int_le_iff)
  also have "\<dots> \<le> y" by simp
  finally show ?thesis .
next
  case False
  define k where "k = bit_length (\<lceil>1 / y\<rceil> - 1)"
  have k0: "0 \<le> k" by (simp add: k_def bit_length_nonneg)
  have "1 / y \<le> of_int \<lceil>1 / y\<rceil>" by simp
  also have "\<lceil>1 / y\<rceil> \<le> 2 ^ nat k"
    using bit_length_upper [of "\<lceil>1 / y\<rceil> - 1"] by (simp add: k_def)
  finally have "1 / y \<le> 2 ^ nat k" by simp
  then have "1 \<le> 2 ^ nat k * y" using assms by (simp add: field_simps)
  then have le: "1 / 2 ^ nat k \<le> y" by (simp add: field_simps)
  have "pow2 (binade y) = pow2 (- k)" using False by (simp add: binade_def k_def)
  also have "\<dots> = 1 / 2 ^ nat k" using k0 by (cases "k = 0") (simp_all add: pow2_def)
  finally show ?thesis using le by simp
qed


text \<open>Rounding to the nearest integer is within one half, and keeps at least half.\<close>

lemma round_half_even_bounds:
  "\<bar>of_int (round_half_even z) - z\<bar> \<le> 1 / 2"
proof -
  define f where "f = \<lfloor>z\<rfloor>"
  have a: "of_int f \<le> z" "z < of_int f + 1" unfolding f_def by linarith+
  show ?thesis
    unfolding round_half_even_def Let_def f_def [symmetric] using a
    by (auto simp: abs_if; linarith)
qed

lemma round_half_even_ge_half:
  assumes "1 \<le> z"
  shows "z / 2 \<le> of_int (round_half_even z)"
proof -
  have f1: "1 \<le> \<lfloor>z\<rfloor>" using assms by simp
  have "z < of_int \<lfloor>z\<rfloor> + 1" by linarith
  moreover have "(1::rat) \<le> of_int \<lfloor>z\<rfloor>" using f1 by (simp only: of_int_1_le_iff)
  ultimately have "z / 2 \<le> of_int \<lfloor>z\<rfloor>" by linarith
  moreover have "\<lfloor>z\<rfloor> \<le> round_half_even z"
    by (simp add: round_half_even_def Let_def)
  then have "(of_int \<lfloor>z\<rfloor> :: rat) \<le> of_int (round_half_even z)"
    by (simp only: of_int_le_iff)
  ultimately show ?thesis by linarith
qed

text \<open>The quantum of the rounding is at most the number, from the least subnormal on.\<close>

lemma quantum_le:
  assumes "pow2 (- 1074) \<le> y"
  shows "pow2 (max (binade y - 52) (- 1074)) \<le> y"
proof (cases "binade y - 52 \<le> - 1074")
  case True
  then show ?thesis using assms by (simp add: max_def)
next
  case False
  have y: "0 < y" using assms pow2_pos [of "- 1074"] by linarith
  have "pow2 (binade y - 52) \<le> pow2 (binade y)" by (rule pow2_mono) simp
  also have "\<dots> \<le> y" by (rule binade_le [OF y])
  finally show ?thesis using False by (simp add: max_def)
qed

lemma round_to_double_pos:
  assumes "pow2 (- 1074) \<le> x"
  shows "x / 2 \<le> round_to_double x"
proof -
  define q where "q = max (binade x - 52) (- 1074)"
  have x: "0 < x" using assms pow2_pos [of "- 1074"] by linarith
  have q: "pow2 q \<le> x" using quantum_le [OF assms] by (simp add: q_def)
  have qp: "0 < pow2 q" by (rule pow2_pos)
  have "1 \<le> x / pow2 q" using q qp by (simp add: field_simps)
  from round_half_even_ge_half [OF this]
  have "x / pow2 q / 2 * pow2 q \<le> of_int (round_half_even (x / pow2 q)) * pow2 q"
    using qp by (simp only: mult_le_cancel_right_pos)
  then have "x / 2 \<le> of_int (round_half_even (x / pow2 q)) * pow2 q"
    using qp by (simp add: field_simps)
  then show ?thesis
    using x by (simp add: round_to_double_def Let_def q_def)
qed

lemma round_to_double_minus: "round_to_double (- x) = - round_to_double x"
  by (simp add: round_to_double_def Let_def)

lemma round_to_double_neg:
  assumes "x \<le> - pow2 (- 1074)"
  shows "round_to_double x \<le> x / 2"
proof -
  have "pow2 (- 1074) \<le> - x" using assms by simp
  from round_to_double_pos [OF this] show ?thesis
    by (simp add: round_to_double_minus)
qed


text \<open>In the normal range the rounding error is at most half a unit in the last place.\<close>

lemma quantum_small:
  assumes "pow2 (- 1022) \<le> y"
  shows "pow2 (max (binade y - 52) (- 1074)) \<le> y * pow2 (- 52)"
proof (cases "binade y - 52 \<le> - 1074")
  case True
  have "pow2 (- 1074) = pow2 (- 1022) * pow2 (- 52)"
    using pow2_add [of "- 1022" "- 52"] by simp
  also have "\<dots> \<le> y * pow2 (- 52)"
    using assms pow2_pos [of "- 52"] by (simp only: mult_le_cancel_right_pos)
  finally show ?thesis using True by (simp add: max_def)
next
  case False
  have y: "0 < y" using assms pow2_pos [of "- 1022"] by linarith
  have "pow2 (binade y - 52) = pow2 (binade y) * pow2 (- 52)"
    using pow2_add [of "binade y" "- 52"] by simp
  also have "\<dots> \<le> y * pow2 (- 52)"
    using binade_le [OF y] pow2_pos [of "- 52"] by (simp only: mult_le_cancel_right_pos)
  finally show ?thesis using False by (simp add: max_def)
qed

lemma round_to_double_error_pos:
  assumes "pow2 (- 1022) \<le> x"
  shows "\<bar>round_to_double x - x\<bar> \<le> x * pow2 (- 53)"
proof -
  define q where "q = max (binade x - 52) (- 1074)"
  define m where "m = round_half_even (x / pow2 q)"
  have x: "0 < x" using assms pow2_pos [of "- 1022"] by linarith
  have qp: "0 < pow2 q" by (rule pow2_pos)
  have q: "pow2 q \<le> x * pow2 (- 52)" using quantum_small [OF assms] by (simp add: q_def)
  have r: "round_to_double x = of_int m * pow2 q"
    using x by (simp add: round_to_double_def Let_def q_def m_def)
  have "of_int m * pow2 q - x = (of_int m - x / pow2 q) * pow2 q"
    using qp by (simp add: field_simps)
  then have "\<bar>of_int m * pow2 q - x\<bar> = \<bar>of_int m - x / pow2 q\<bar> * pow2 q"
    using qp by (simp add: abs_mult)
  also have "\<dots> \<le> 1 / 2 * pow2 q"
    using round_half_even_bounds [of "x / pow2 q"] qp
    by (simp only: m_def mult_le_cancel_right_pos)
  also have "\<dots> \<le> 1 / 2 * (x * pow2 (- 52))" using q by simp
  also have "\<dots> = x * pow2 (- 53)"
    using pow2_add [of "- 52" "- 1"] by (simp add: pow2_def)
  finally show ?thesis by (simp add: r)
qed

lemma round_to_double_error:
  assumes "pow2 (- 1022) \<le> \<bar>x\<bar>"
  shows "\<bar>round_to_double x - x\<bar> \<le> \<bar>x\<bar> * pow2 (- 53)"
proof (cases "0 \<le> x")
  case True
  then show ?thesis using round_to_double_error_pos [of x] assms by simp
next
  case False
  then have "pow2 (- 1022) \<le> - x" using assms by simp
  from round_to_double_error_pos [OF this] False show ?thesis
    by (simp add: round_to_double_minus abs_if split: if_splits)
qed

subsection \<open>Dictionaries\<close>

lemma dict_get_missing: "map_of m k = None \<Longrightarrow> dict_get m k d = d"
  by (simp add: dict_get_def)

lemma dict_get_append_default:
  "map_of m k = None \<Longrightarrow>
   dict_get (m @ [(k, v)]) k' d = (if k' = k then v else dict_get m k' d)"
  by (auto simp: dict_get_def map_add_def split: option.splits)

lemma dict_get_append_same:
  assumes "map_of m k = None" and "k' \<noteq> k \<or> d = v"
  shows "dict_get (m @ [(k, v)]) k' d = dict_get m k' d"
  using assms by (auto simp: dict_get_append_default dict_get_missing)

lemma dict_set_sum_new:
  "map_of d k = None \<Longrightarrow> sum_list (map snd (dict_set d k v)) = sum_list (map snd d) + (v::nat)"
  by (induction d) (auto split: if_splits)

lemma dict_set_sum_old:
  "map_of d k = Some c \<Longrightarrow>
   sum_list (map snd (dict_set d k v)) + c = sum_list (map snd d) + (v::nat)"
  by (induction d) (auto split: if_splits)

text \<open>Counting one more occurrence of a key adds one to the sum of all counts.\<close>

lemma dict_incr_sum:
  "sum_list (map snd (dict_set d k (Suc (dict_get d k 0)))) = Suc (sum_list (map snd d))"
proof (cases "map_of d k")
  case None
  then show ?thesis
    using dict_set_sum_new [OF None, of 1] by (simp add: dict_get_def)
next
  case (Some c)
  then show ?thesis
    using dict_set_sum_old [OF Some, of "c + 1"] by (simp add: dict_get_def)
qed

subsection \<open>Follow-up questions\<close>

lemma get_followup_questions_unknown:
  "atype \<notin> set (map fst questions) \<Longrightarrow>
   get_followup_questions atype = [''Can you provide context for this flag?'']"
  by (simp add: get_followup_questions_def dict_get_def questions_def)

lemma get_followup_questions_known:
  "atype \<in> set (map fst questions) \<Longrightarrow> length (get_followup_questions atype) = 3"
  by (auto simp: get_followup_questions_def dict_get_def questions_def)

text \<open>
  Claim C3. Every key of the template registry should have a list of exactly three
  follow-up questions. The registry has six keys and the table of questions five:
  \<^verbatim>\<open>excessive_head_movement\<close> is a recognized template key, and the function gives it
  the single generic question of an unrecognized type.
\<close>

theorem followups_head_movement_generic:
  "map_of ANOMALY_EXPLANATIONS ''excessive_head_movement'' \<noteq> None
   \<and> get_followup_questions ''excessive_head_movement'' =
       [''Can you provide context for this flag?'']
   \<and> length (get_followup_questions ''excessive_head_movement'') \<noteq> 3"
  by (simp add: ANOMALY_EXPLANATIONS_def get_followup_questions_def dict_get_def questions_def)

subsection \<open>Recommendation policy\<close>

text \<open>
  Claim C5. The recommendation is one of four messages, chosen in this order: no anomaly
  at all; at least three high-severity anomalies; one or two of them; otherwise (some
  anomalies, none of high severity). The four conditions cover every input, for every
  duration.
\<close>

theorem recommendation_rules:
  fixes anomalies duration
  defines "n \<equiv> length (filter (\<lambda>a. severity a = ''high'') anomalies)"
  defines "rec \<equiv> get_overall_recommendation anomalies duration"
  shows "(anomalies = [] \<longrightarrow>
            rec = ''Session appeared normal. Candidate can proceed to next stage.'')
    \<and> (3 \<le> n \<longrightarrow>
            rec = ''Multiple high-severity flags detected. Recommend follow-up discussion with candidate.'')
    \<and> (1 \<le> n \<and> n \<le> 2 \<longrightarrow>
            rec = ''Some concerns noted. Suggest brief follow-up to clarify flagged behaviors.'')
    \<and> (anomalies \<noteq> [] \<and> n = 0 \<longrightarrow>
            rec = ''Minor flags detected but likely not concerning. Candidate can proceed with note of minor observations.'')"
proof -
  have "anomalies = [] \<Longrightarrow> n = 0" by (simp add: n_def)
  then show ?thesis
    unfolding rec_def get_overall_recommendation_def Let_def n_def [symmetric]
    by (cases "anomalies = []") auto
qed

theorem recommendation_rules_witness:
  "get_overall_recommendation [] 25 =
     ''Session appeared normal. Candidate can proceed to next stage.''
   \<and> get_overall_recommendation
        [example_anomaly ''object_phone'' ''high'' 1, example_anomaly ''object_phone'' ''high'' 2,
         example_anomaly ''multi_person'' ''high'' 3] 25 =
     ''Multiple high-severity flags detected. Recommend follow-up discussion with candidate.''
   \<and> get_overall_recommendation
        [example_anomaly ''object_phone'' ''high'' 1, example_anomaly ''off_screen_gaze'' ''medium'' 2,
         example_anomaly ''face_absence'' ''medium'' 3] 25 =
     ''Some concerns noted. Suggest brief follow-up to clarify flagged behaviors.''
   \<and> get_overall_recommendation
        [example_anomaly ''off_screen_gaze'' ''medium'' 2, example_anomaly ''face_absence'' ''low'' 3] 25 =
     ''Minor flags detected but likely not concerning. Candidate can proceed with note of minor observations.''"
  using recommendation_rules [of "[]" 25]
    recommendation_rules [of "[example_anomaly ''object_phone'' ''high'' 1,
         example_anomaly ''object_phone'' ''high'' 2,
         example_anomaly ''multi_person'' ''high'' 3]" 25]
    recommendation_rules [of "[example_anomaly ''object_phone'' ''high'' 1,
         example_anomaly ''off_screen_gaze'' ''medium'' 2,
         example_anomaly ''face_absence'' ''medium'' 3]" 25]
    recommendation_rules [of "[example_anomaly ''off_screen_gaze'' ''medium'' 2,
         example_anomaly ''face_absence'' ''low'' 3]" 25]
  by (simp add: example_anomaly_def)

subsection \<open>Report aggregator\<close>

lemma categorize_counts:
  "sum_list (map snd (fst (categorize xs c h))) = sum_list (map snd c) + length xs"
  by (induction xs arbitrary: c h) (simp_all add: dict_incr_sum)

lemma categorize_high:
  "snd (categorize xs c h) = h @ filter (\<lambda>a. severity a = ''high'') xs"
  by (induction xs arbitrary: c h) simp_all

text \<open>The three fields of the result, read off the definition.\<close>

lemma metrics_generate_report_summary:
  "metrics (generate_report_summary sess anomalies ev) =
     \<lparr> duration_minutes =
         (case (ended_at sess, started_at sess) of
            (Some e, Some s) \<Rightarrow> round_to_double (total_seconds e s / 60)
          | _ \<Rightarrow> 0),
       total_anomalies = length anomalies,
       high_severity_count = length (snd (categorize anomalies [] [])),
       anomaly_breakdown = fst (categorize anomalies [] []),
       metrics_event_count = event_count ev \<rparr>"
  unfolding generate_report_summary_def Let_def split_def
  by (simp only: report_summary.simps)

lemma flags_generate_report_summary:
  "high_priority_flags (generate_report_summary sess anomalies ev) =
     map (\<lambda>a. \<lparr> flag_type = anomaly_type a, flag_description = description a,
                flag_detected_at = isoformat (detected_at a) \<rparr>)
       (snd (categorize anomalies [] []))"
  unfolding generate_report_summary_def Let_def split_def
  by (simp only: report_summary.simps)

lemma summary_generate_report_summary_ev:
  "summary (generate_report_summary sess anomalies ev1) =
   summary (generate_report_summary sess anomalies ev2)"
  unfolding generate_report_summary_def Let_def split_def
  by (simp only: report_summary.simps)

text \<open>
  Claim C4. In the summary the aggregator returns, the counts of the breakdown add up to
  the total number of anomalies, the high-severity count is the number of records whose
  severity is \<^verbatim>\<open>high\<close>, and the list of high-priority flags holds one descriptor for
  each of those records, in their order: all of them, not the three the text shows.
\<close>

theorem report_summary_invariants:
  fixes sess anomalies ev
  defines "r \<equiv> generate_report_summary sess anomalies ev"
  defines "high \<equiv> filter (\<lambda>a. severity a = ''high'') anomalies"
  shows "sum_list (map snd (anomaly_breakdown (metrics r))) = total_anomalies (metrics r)
    \<and> total_anomalies (metrics r) = length anomalies
    \<and> high_severity_count (metrics r) = length high
    \<and> high_priority_flags r =
        map (\<lambda>a. \<lparr> flag_type = anomaly_type a, flag_description = description a,
                   flag_detected_at = isoformat (detected_at a) \<rparr>) high
    \<and> length (high_priority_flags r) = high_severity_count (metrics r)"
proof -
  have c: "sum_list (map snd (fst (categorize anomalies [] []))) = length anomalies"
    using categorize_counts [of anomalies "[]" "[]"] by simp
  have h: "snd (categorize anomalies [] []) = high"
    using categorize_high [of anomalies "[]" "[]"] by (simp add: high_def)
  show ?thesis
    unfolding r_def metrics_generate_report_summary flags_generate_report_summary
    by (simp add: c h)
qed

theorem report_summary_invariants_witness:
  "length (high_priority_flags
      (generate_report_summary example_session example_anomalies example_events)) = 4
   \<and> high_severity_count (metrics
      (generate_report_summary example_session example_anomalies example_events)) = 4
   \<and> sum_list (map snd (anomaly_breakdown (metrics
      (generate_report_summary example_session example_anomalies example_events)))) = 5"
  using report_summary_invariants [of example_session example_anomalies example_events]
  by (simp add: example_anomalies_def example_anomaly_def)

text \<open>
  Claim C10. Two event summaries with the same event count give the same report summary:
  the earliest and the latest event timestamp reach no field of the result.
\<close>

theorem event_timestamps_no_influence:
  assumes "event_count ev1 = event_count ev2"
  shows "generate_report_summary sess anomalies ev1 = generate_report_summary sess anomalies ev2"
proof (rule report_summary.equality)
  show "summary (generate_report_summary sess anomalies ev1) =
        summary (generate_report_summary sess anomalies ev2)"
    by (rule summary_generate_report_summary_ev)
  show "metrics (generate_report_summary sess anomalies ev1) =
        metrics (generate_report_summary sess anomalies ev2)"
    unfolding metrics_generate_report_summary using assms by simp
  show "high_priority_flags (generate_report_summary sess anomalies ev1) =
        high_priority_flags (generate_report_summary sess anomalies ev2)"
    unfolding flags_generate_report_summary by simp
qed simp

theorem event_timestamps_no_influence_witness:
  "event_count example_events =
     event_count \<lparr> event_count = 2, first_event = None, last_event = None \<rparr>
   \<and> example_events \<noteq> \<lparr> event_count = 2, first_event = None, last_event = None \<rparr>
   \<and> generate_report_summary example_session example_anomalies example_events =
     generate_report_summary example_session example_anomalies
       \<lparr> event_count = 2, first_event = None, last_event = None \<rparr>"
  using event_timestamps_no_influence [of example_events
      "\<lparr> event_count = 2, first_event = None, last_event = None \<rparr>"
      example_session example_anomalies]
  by (simp add: example_events_def)

text \<open>
  The duration is computed by two float divisions. Each rounds to the nearest double,
  so for a difference that is not zero the result keeps the sign of the exact quotient
  and is within a relative error of \<open>2^(-51)\<close> of it.
\<close>

lemma two_roundings_error:
  assumes "120 * pow2 (- 1022) \<le> \<bar>x\<bar>"
  shows "\<bar>round_to_double (round_to_double x / 60) - x / 60\<bar> \<le> \<bar>x / 60\<bar> * pow2 (- 51)"
proof -
  define t where "t = round_to_double x"
  define A where "A = \<bar>x\<bar> * pow2 (- 53)"
  have p: "0 < pow2 (- 1022)" by (rule pow2_pos)
  have eps: "0 < pow2 (- 53)" "pow2 (- 53) \<le> 1 / 2" by (simp_all add: pow2_def)
  have n1: "pow2 (- 1022) \<le> \<bar>x\<bar>" using assms p by linarith
  have A0: "0 \<le> A" using eps by (simp add: A_def)
  have A1: "A \<le> \<bar>x\<bar> / 2"
  proof -
    have "\<bar>x\<bar> * pow2 (- 53) \<le> \<bar>x\<bar> * (1 / 2)"
      using eps by (intro mult_left_mono) simp_all
    then show ?thesis by (simp add: A_def)
  qed
  have e1: "\<bar>t - x\<bar> \<le> A"
    using round_to_double_error [OF n1] by (simp add: t_def A_def)
  have tl: "\<bar>x\<bar> / 2 \<le> \<bar>t\<bar>" using e1 A1 by linarith
  have tu: "\<bar>t\<bar> \<le> \<bar>x\<bar> + A" using e1 by linarith
  have n2: "pow2 (- 1022) \<le> \<bar>t / 60\<bar>" using tl assms by simp
  have e2: "\<bar>round_to_double (t / 60) - t / 60\<bar> \<le> \<bar>t / 60\<bar> * pow2 (- 53)"
    by (rule round_to_double_error [OF n2])
  have "\<bar>t\<bar> * pow2 (- 53) \<le> (\<bar>x\<bar> + A) * pow2 (- 53)"
    using tu eps by (intro mult_right_mono) simp_all
  also have "\<dots> = A + A * pow2 (- 53)" by (simp add: A_def algebra_simps)
  also have "A * pow2 (- 53) \<le> A * 1"
    using A0 eps by (intro mult_left_mono) simp_all
  finally have e3: "\<bar>t\<bar> * pow2 (- 53) \<le> 2 * A" by simp
  have "\<bar>t / 60\<bar> * pow2 (- 53) = \<bar>t\<bar> * pow2 (- 53) / 60" by simp
  with e2 e3 have e4: "\<bar>round_to_double (t / 60) - t / 60\<bar> \<le> 2 * A / 60" by simp
  have e5: "\<bar>t / 60 - x / 60\<bar> \<le> A / 60"
  proof -
    have "t / 60 - x / 60 = (t - x) / 60" by (simp add: diff_divide_distrib)
    then have "\<bar>t / 60 - x / 60\<bar> = \<bar>t - x\<bar> / 60" by (simp only: abs_divide)
    also have "\<dots> \<le> A / 60" using e1 by (simp only: divide_right_mono)
    finally show ?thesis .
  qed
  have "\<bar>round_to_double (t / 60) - x / 60\<bar> \<le> 3 * A / 60" using e4 e5 by linarith
  also have "\<dots> \<le> 4 * A / 60" using A0 by simp
  also have "\<dots> = \<bar>x / 60\<bar> * pow2 (- 51)"
    by (simp add: A_def pow2_def)
  finally show ?thesis by (simp add: t_def)
qed

lemma two_roundings_neg:
  assumes "x \<le> - (120 * pow2 (- 1074))"
  shows "round_to_double (round_to_double x / 60) < 0"
proof -
  have p: "0 < pow2 (- 1074)" by (rule pow2_pos)
  have "x \<le> - pow2 (- 1074)" using assms p by linarith
  from round_to_double_neg [OF this] have t: "round_to_double x \<le> x / 2" .
  then have "round_to_double x / 60 \<le> - pow2 (- 1074)" using assms by simp
  from round_to_double_neg [OF this]
  have "round_to_double (round_to_double x / 60) \<le> round_to_double x / 60 / 2" .
  also have "\<dots> < 0" using t assms p by simp
  finally show ?thesis .
qed

lemma microseconds_normal:
  fixes n :: int
  assumes "n \<noteq> 0"
  shows "120 * pow2 (- 1022) \<le> \<bar>of_int n / 1000000\<bar>"
proof -
  have "1 \<le> \<bar>n\<bar>" using assms by simp
  then have "(1::rat) \<le> of_int \<bar>n\<bar>" by (simp only: of_int_1_le_iff)
  then have "(1::rat) \<le> \<bar>of_int n\<bar>" by simp
  then have "1 / 1000000 \<le> \<bar>of_int n / 1000000 :: rat\<bar>" by simp
  moreover have "120 * pow2 (- 1022) \<le> 1 / 1000000" by (simp add: pow2_def)
  ultimately show ?thesis by linarith
qed

lemma round_to_double_zero: "round_to_double 0 = 0"
  by (simp add: round_to_double_def)

text \<open>
  Claim C6. The duration in minutes is 0 when the start or the end of the session is
  absent. When both are present it is their difference in seconds divided by 60, as the
  float division of the source computes it: the quotient of the (float) number of
  seconds by 60, which is the exact quotient up to a relative error of \<open>2^(-51)\<close>.
  There is no clamping: it is negative when the end precedes the start.
\<close>

theorem duration_rule:
  fixes sess anomalies ev
  defines "d \<equiv> duration_minutes (metrics (generate_report_summary sess anomalies ev))"
  shows "(started_at sess = None \<or> ended_at sess = None \<longrightarrow> d = 0)
    \<and> (\<forall>s e. started_at sess = Some s \<and> ended_at sess = Some e \<longrightarrow>
          d = round_to_double (total_seconds e s / 60)
          \<and> \<bar>d - of_int (to_microseconds e - to_microseconds s) / 1000000 / 60\<bar>
              \<le> \<bar>of_int (to_microseconds e - to_microseconds s) / 1000000 / 60\<bar> * pow2 (- 51)
          \<and> (to_microseconds e < to_microseconds s \<longrightarrow> d < 0))"
proof (intro conjI impI allI)
  assume "started_at sess = None \<or> ended_at sess = None"
  then show "d = 0"
    unfolding d_def metrics_generate_report_summary
    by (auto split: option.splits)
next
  fix s e
  assume both: "started_at sess = Some s \<and> ended_at sess = Some e"
  define n where "n = to_microseconds e - to_microseconds s"
  have d: "d = round_to_double (round_to_double (of_int n / 1000000) / 60)"
    unfolding d_def metrics_generate_report_summary using both
    by (simp add: total_seconds_def n_def)
  show "d = round_to_double (total_seconds e s / 60)"
    by (simp add: d total_seconds_def n_def)
  show "\<bar>d - of_int (to_microseconds e - to_microseconds s) / 1000000 / 60\<bar>
      \<le> \<bar>of_int (to_microseconds e - to_microseconds s) / 1000000 / 60\<bar> * pow2 (- 51)"
  proof (cases "n = 0")
    case True
    then show ?thesis by (simp add: d round_to_double_zero flip: n_def)
  next
    case False
    from two_roundings_error [OF microseconds_normal [OF False]]
    show ?thesis by (simp add: d flip: n_def)
  qed
  assume "to_microseconds e < to_microseconds s"
  then have neg: "n < 0" by (simp add: n_def)
  then have "n \<noteq> 0" by simp
  from microseconds_normal [OF this] neg
  have "120 * pow2 (- 1022) \<le> - (of_int n / 1000000 :: rat)" by simp
  moreover have "pow2 (- 1074) \<le> pow2 (- 1022)" by (rule pow2_mono) simp
  ultimately have "of_int n / 1000000 \<le> - (120 * pow2 (- 1074))" by linarith
  from two_roundings_neg [OF this] show "d < 0" by (simp add: d)
qed

lemma example_time_microseconds:
  "to_microseconds (example_time 10 25) = to_microseconds (example_time 10 0) + 1500000000"
  by (simp add: to_microseconds_def toordinal_def example_time_def)

lemma example_time_100_seconds:
  "to_microseconds (example_time 10 0\<lparr>minute := 1, second := 40\<rparr>) =
     to_microseconds (example_time 10 0) + 100000000"
  by (simp add: to_microseconds_def toordinal_def example_time_def)

lemma round_to_double_examples:
  "round_to_double (- 1500) = - 1500"
  "round_to_double (- 25) = - 25"
  "round_to_double 100 = 100"
  "round_to_double (5 / 3) = 7505999378950827 / 4503599627370496"
  by code_simp+

theorem duration_rule_witness:
  "duration_minutes (metrics (generate_report_summary
      \<lparr> started_at = Some (example_time 10 25), ended_at = None \<rparr> [] example_events)) = 0
   \<and> to_microseconds (example_time 10 0) < to_microseconds (example_time 10 25)
   \<and> duration_minutes (metrics (generate_report_summary
      \<lparr> started_at = Some (example_time 10 25), ended_at = Some (example_time 10 0) \<rparr>
      [] example_events)) = - 25
   \<and> duration_minutes (metrics (generate_report_summary
      \<lparr> started_at = Some (example_time 10 0),
        ended_at = Some (example_time 10 0\<lparr>minute := 1, second := 40\<rparr>) \<rparr>
      [] example_events)) = 7505999378950827 / 4503599627370496"
  using duration_rule [of "\<lparr> started_at = Some (example_time 10 25), ended_at = None \<rparr>"
      "[]" example_events]
    duration_rule [of "\<lparr> started_at = Some (example_time 10 25),
      ended_at = Some (example_time 10 0) \<rparr>" "[]" example_events]
    duration_rule [of "\<lparr> started_at = Some (example_time 10 0),
      ended_at = Some (example_time 10 0\<lparr>minute := 1, second := 40\<rparr>) \<rparr>" "[]" example_events]
  by (simp add: total_seconds_def example_time_microseconds example_time_100_seconds
      round_to_double_examples)

subsection \<open>Explanation formatter\<close>

lemma int_to_float_zero: "int_to_float 0 = Inr 0"
  by (simp add: int_to_float_def round_to_double_def)

lemma float_mul100_zero: "float_of_rat 0 = Finite 0"
  by (simp add: float_of_rat_def round_to_double_def)

lemma format_fixed_zero: "format_fixed 0 0 = ''0''" "format_fixed 1 0 = ''0.0''"
  by (simp_all add: format_fixed_def round_half_even_def zero_pad_def)

lemma template_lookup:
  "dict_get ANOMALY_EXPLANATIONS ''off_screen_gaze'' d = snd (ANOMALY_EXPLANATIONS ! 0)"
  "dict_get ANOMALY_EXPLANATIONS ''object_phone'' d = snd (ANOMALY_EXPLANATIONS ! 1)"
  "dict_get ANOMALY_EXPLANATIONS ''object_paper'' d = snd (ANOMALY_EXPLANATIONS ! 2)"
  "dict_get ANOMALY_EXPLANATIONS ''multi_person'' d = snd (ANOMALY_EXPLANATIONS ! 3)"
  "dict_get ANOMALY_EXPLANATIONS ''face_absence'' d = snd (ANOMALY_EXPLANATIONS ! 4)"
  "dict_get ANOMALY_EXPLANATIONS ''excessive_head_movement'' d = snd (ANOMALY_EXPLANATIONS ! 5)"
  by (simp_all add: dict_get_def ANOMALY_EXPLANATIONS_def)

text \<open>
  Claim C7. The handler returns for every anomaly type, metrics mapping and timestamp.
  When the substitution raises, whatever the exception, the explanation is the minimal
  text \<^verbatim>\<open>Anomaly detected: \<close> followed by the literal anomaly type; when it does not, the
  explanation is the substituted template.
\<close>

theorem explain_anomaly_never_raises:
  "\<exists>r. explain_anomaly py_repr json_dumps atype request_metrics detected = Inr r
     \<and> (\<forall>e. format_explanation py_repr atype request_metrics = Inl e \<longrightarrow>
            explanation r = ''Anomaly detected: '' @ atype)
     \<and> (\<forall>s. format_explanation py_repr atype request_metrics = Inr s \<longrightarrow>
            explanation r = s)"
  by (simp add: explain_anomaly_def Let_def split: sum.splits)

lemma format_explanation_string_duration:
  "format_explanation py_repr ''object_phone'' [(''duration_sec'', JStr ''twelve'')] =
     Inl ValueError"
  unfolding format_explanation_def Let_def template_lookup
  by (simp add: dict_get_def ANOMALY_EXPLANATIONS_def)

theorem explain_anomaly_never_raises_witness:
  "format_explanation (\<lambda>v. []) ''object_phone'' [(''duration_sec'', JStr ''twelve'')] =
     Inl ValueError
   \<and> (\<exists>r. explain_anomaly (\<lambda>v. []) (\<lambda>m. []) ''object_phone''
            [(''duration_sec'', JStr ''twelve'')] ''2024-01-01T00:00:00Z'' = Inr r
          \<and> explanation r = ''Anomaly detected: object_phone'')"
  using explain_anomaly_never_raises [of "\<lambda>v. []" "\<lambda>m. []" "''object_phone''"
      "[(''duration_sec'', JStr ''twelve'')]" "''2024-01-01T00:00:00Z''"]
  by (auto simp: format_explanation_string_duration)

lemma format_explanation_default_key:
  assumes miss: "map_of m k = None"
    and dflt: "(k, v) \<in> set [(''off_screen_rate'', JInt 0), (''window'', JStr ''1min''),
            (''duration_sec'', JInt 0), (''detection_count'', JInt 0),
            (''yaw_std'', JInt 0), (''pitch_std'', JInt 0)]"
  shows "format_explanation py_repr atype (m @ [(k, v)]) = format_explanation py_repr atype m"
proof -
  have g1: "dict_get (m @ [(k, v)]) ''off_screen_rate'' (JInt 0) =
      dict_get m ''off_screen_rate'' (JInt 0)"
    using dflt by (intro dict_get_append_same [OF miss]) auto
  have g2: "dict_get (m @ [(k, v)]) ''window'' (JStr ''1min'') =
      dict_get m ''window'' (JStr ''1min'')"
    using dflt by (intro dict_get_append_same [OF miss]) auto
  have g3: "dict_get (m @ [(k, v)]) ''duration_sec'' (JInt 0) =
      dict_get m ''duration_sec'' (JInt 0)"
    using dflt by (intro dict_get_append_same [OF miss]) auto
  have g4: "dict_get (m @ [(k, v)]) ''detection_count'' (JInt 0) =
      dict_get m ''detection_count'' (JInt 0)"
    using dflt by (intro dict_get_append_same [OF miss]) auto
  have g5: "dict_get (m @ [(k, v)]) ''yaw_std'' (JInt 0) = dict_get m ''yaw_std'' (JInt 0)"
    using dflt by (intro dict_get_append_same [OF miss]) auto
  have g6: "dict_get (m @ [(k, v)]) ''pitch_std'' (JInt 0) = dict_get m ''pitch_std'' (JInt 0)"
    using dflt by (intro dict_get_append_same [OF miss]) auto
  show ?thesis
    unfolding format_explanation_def Let_def g1 g2 g3 g4 g5 g6 by (rule refl)
qed

text \<open>
  Claim C8, as the code has it. A key that is missing from the metrics is read as its
  default, which is 0 for \<^verbatim>\<open>off_screen_rate\<close>, \<^verbatim>\<open>duration_sec\<close>, \<^verbatim>\<open>detection_count\<close>,
  \<^verbatim>\<open>yaw_std\<close> and \<^verbatim>\<open>pitch_std\<close>, and the label \<^verbatim>\<open>1min\<close> for \<^verbatim>\<open>window\<close>: the result is the
  one of the same metrics with the key present at its default. The defaults are accepted
  by every template: when all the keys a recognized type reads are missing, the
  substitution succeeds.
\<close>

theorem missing_metric_defaults:
  "(map_of m k = None \<and>
      (k, v) \<in> set [(''off_screen_rate'', JInt 0), (''window'', JStr ''1min''),
            (''duration_sec'', JInt 0), (''detection_count'', JInt 0),
            (''yaw_std'', JInt 0), (''pitch_std'', JInt 0)] \<longrightarrow>
      format_explanation py_repr atype m = format_explanation py_repr atype (m @ [(k, v)]))
   \<and> (map_of m ''off_screen_rate'' = None \<and> map_of m ''window'' = None \<longrightarrow>
      format_explanation py_repr ''off_screen_gaze'' m =
        Inr ''The candidate was looking away from the screen for 0% of the last 1min. This may indicate they were reading from notes, looking at another device, or distracted.'')
   \<and> (atype \<in> set [''object_phone'', ''object_paper'', ''face_absence'']
         \<and> map_of m ''duration_sec'' = None \<longrightarrow>
      (\<exists>s. format_explanation py_repr atype m = Inr s))
   \<and> (map_of m ''detection_count'' = None \<longrightarrow>
      format_explanation py_repr ''multi_person'' m =
        Inr ''Another person was detected entering the frame 0 times. This could be someone assisting the candidate or an environmental factor.'')
   \<and> (map_of m ''yaw_std'' = None \<and> map_of m ''pitch_std'' = None \<longrightarrow>
      (\<exists>s. format_explanation py_repr ''excessive_head_movement'' m = Inr s))"
proof (intro conjI impI)
  assume "map_of m k = None \<and>
      (k, v) \<in> set [(''off_screen_rate'', JInt 0), (''window'', JStr ''1min''),
            (''duration_sec'', JInt 0), (''detection_count'', JInt 0),
            (''yaw_std'', JInt 0), (''pitch_std'', JInt 0)]"
  then show "format_explanation py_repr atype m = format_explanation py_repr atype (m @ [(k, v)])"
    using format_explanation_default_key [of m k v py_repr atype] by simp
next
  assume "map_of m ''off_screen_rate'' = None \<and> map_of m ''window'' = None"
  then show "format_explanation py_repr ''off_screen_gaze'' m =
        Inr ''The candidate was looking away from the screen for 0% of the last 1min. This may indicate they were reading from notes, looking at another device, or distracted.''"
    unfolding format_explanation_def Let_def template_lookup
    by (simp add: dict_get_missing ANOMALY_EXPLANATIONS_def int_to_float_zero float_mul100_zero format_fixed_zero)
next
  assume a: "atype \<in> set [''object_phone'', ''object_paper'', ''face_absence'']
         \<and> map_of m ''duration_sec'' = None"
  then consider "atype = ''object_phone''" | "atype = ''object_paper''"
    | "atype = ''face_absence''"
    by auto
  then show "\<exists>s. format_explanation py_repr atype m = Inr s"
  proof cases
    case 1
    show ?thesis
      unfolding 1 format_explanation_def Let_def template_lookup using a
      by (simp add: dict_get_missing ANOMALY_EXPLANATIONS_def int_to_float_zero
          float_mul100_zero format_fixed_zero)
  next
    case 2
    show ?thesis
      unfolding 2 format_explanation_def Let_def template_lookup using a
      by (simp add: dict_get_missing ANOMALY_EXPLANATIONS_def int_to_float_zero
          float_mul100_zero format_fixed_zero)
  next
    case 3
    show ?thesis
      unfolding 3 format_explanation_def Let_def template_lookup using a
      by (simp add: dict_get_missing ANOMALY_EXPLANATIONS_def int_to_float_zero
          float_mul100_zero format_fixed_zero)
  qed
next
  assume "map_of m ''detection_count'' = None"
  then show "format_explanation py_repr ''multi_person'' m =
        Inr ''Another person was detected entering the frame 0 times. This could be someone assisting the candidate or an environmental factor.''"
    unfolding format_explanation_def Let_def template_lookup
    by (simp add: dict_get_missing ANOMALY_EXPLANATIONS_def str_int_def)
next
  assume "map_of m ''yaw_std'' = None \<and> map_of m ''pitch_std'' = None"
  then show "\<exists>s. format_explanation py_repr ''excessive_head_movement'' m = Inr s"
    unfolding format_explanation_def Let_def template_lookup
    by (simp add: dict_get_missing ANOMALY_EXPLANATIONS_def int_to_float_zero
        float_mul100_zero format_fixed_zero)
qed

theorem missing_metric_defaults_witness:
  "map_of [(''off_screen_rate'', JFloat (Finite (1 / 4)))] ''window'' = None
   \<and> format_explanation (\<lambda>v. []) ''off_screen_gaze''
         [(''off_screen_rate'', JFloat (Finite (1 / 4)))] =
       format_explanation (\<lambda>v. []) ''off_screen_gaze''
         ([(''off_screen_rate'', JFloat (Finite (1 / 4)))] @ [(''window'', JStr ''1min'')])"
  using missing_metric_defaults [of "[(''off_screen_rate'', JFloat (Finite (1 / 4)))]"
      "''window''" "JStr ''1min''" "\<lambda>v. []" "''off_screen_gaze''"]
  by simp

text \<open>
  Claim C8 as stated fails at \<^verbatim>\<open>window\<close>: with no metrics at all the explanation of
  \<^verbatim>\<open>off_screen_gaze\<close> names the window \<^verbatim>\<open>1min\<close>, which is not what a window of 0 gives.
\<close>

theorem missing_window_is_not_zero:
  "format_explanation (\<lambda>v. []) ''off_screen_gaze'' [] =
     Inr ''The candidate was looking away from the screen for 0% of the last 1min. This may indicate they were reading from notes, looking at another device, or distracted.''
   \<and> format_explanation (\<lambda>v. []) ''off_screen_gaze'' [(''window'', JInt 0)] =
     Inr ''The candidate was looking away from the screen for 0% of the last 0. This may indicate they were reading from notes, looking at another device, or distracted.''
   \<and> dict_get [] ''window'' (JStr ''1min'') \<noteq> JInt 0"
  unfolding format_explanation_def Let_def template_lookup
  by (simp add: dict_get_def ANOMALY_EXPLANATIONS_def int_to_float_zero float_mul100_zero format_fixed_zero
      str_int_def)

text \<open>
  Claim C9. For an anomaly type that is not a key of the template registry the handler
  returns: the explanation is the generic template around the literal type, and the
  suggested follow-up is the single generic question.
\<close>

theorem explain_unknown_type:
  assumes "atype \<notin> set (map fst ANOMALY_EXPLANATIONS)"
  shows "\<exists>r. explain_anomaly py_repr json_dumps atype request_metrics detected = Inr r
     \<and> explanation r = ''An anomaly of type '' @ apostrophe @ atype @ apostrophe
          @ '' was detected. Please review the session data.''
     \<and> suggested_followup r = [''Can you provide context for this flag?'']"
proof -
  from assms have ne: "atype \<noteq> ''off_screen_gaze''" "atype \<noteq> ''object_phone''"
    "atype \<noteq> ''object_paper''" "atype \<noteq> ''multi_person''" "atype \<noteq> ''face_absence''"
    "atype \<noteq> ''excessive_head_movement''"
    by (auto simp: ANOMALY_EXPLANATIONS_def)
  have t: "dict_get ANOMALY_EXPLANATIONS atype default_template = default_template"
    using ne by (simp add: dict_get_def ANOMALY_EXPLANATIONS_def)
  have f: "format_explanation py_repr atype request_metrics =
        Inr (''An anomaly of type '' @ apostrophe @ atype @ apostrophe
          @ '' was detected. Please review the session data.'')"
    unfolding format_explanation_def Let_def t using ne
    by (simp add: default_template_def)
  have q: "get_followup_questions atype = [''Can you provide context for this flag?'']"
    using ne by (intro get_followup_questions_unknown) (simp add: questions_def)
  show ?thesis
    by (simp add: explain_anomaly_def Let_def f q)
qed

theorem explain_unknown_type_witness:
  "''tab_switch'' \<notin> set (map fst ANOMALY_EXPLANATIONS)
   \<and> (\<exists>r. explain_anomaly (\<lambda>v. []) (\<lambda>m. []) ''tab_switch'' [] ''2024-01-01T00:00:00Z'' = Inr r
          \<and> explanation r = ''An anomaly of type '' @ apostrophe @ ''tab_switch'' @ apostrophe
               @ '' was detected. Please review the session data.''
          \<and> suggested_followup r = [''Can you provide context for this flag?''])"
proof -
  have h: "''tab_switch'' \<notin> set (map fst ANOMALY_EXPLANATIONS)"
    by (simp add: ANOMALY_EXPLANATIONS_def)
  show ?thesis
    using h explain_unknown_type [OF h, of "\<lambda>v. []" "\<lambda>m. []" "[]" "''2024-01-01T00:00:00Z''"]
    by blast
qed

subsection \<open>Report generation\<close>

text \<open>
  How many connections a call leaves open: as many as before when it returns, and one
  more when it raises after the connection was made.
\<close>

lemma report_body_connections:
  "open_connections (snd (report_body env db session_id)) =
     (case fst (report_body env db session_id) of
        Inr r \<Rightarrow> open_connections db
      | Inl e \<Rightarrow> (if fault env Connect = None then open_connections db + 1
                 else open_connections db))"
  by (simp add: report_body_def Let_def split: option.splits)

text \<open>
  Claim C1. A session id that resolves to no session should be answered with status 404.
  The handler raises that HTTPException inside its \<^verbatim>\<open>try\<close> block, where
  \<^verbatim>\<open>except Exception\<close> catches it: the caller receives status 500. No report row is
  written, and the connection stays open.
\<close>

theorem missing_session_status_500:
  "generate_report example_env example_db ''no-such-session'' =
     (Inl (HTTPException 500 ''Report generation failed: 404: Session not found''),
      example_db\<lparr>open_connections := 1\<rparr>)"
  by (simp add: generate_report_def report_body_def example_env_def example_db_def
      select_session_def)

text \<open>
  Claim C2. The connection should be released on every outcome. When a query fails
  after the connection was made, the handler raises with the connection still open:
  \<^verbatim>\<open>conn.close()\<close> is reached on the successful path only.
\<close>

theorem connection_open_after_failure:
  "fst (generate_report failing_env example_db ''s1'') =
     Inl (HTTPException 500 ''Report generation failed: server closed the connection'')
   \<and> open_connections example_db = 0
   \<and> open_connections (snd (generate_report failing_env example_db ''s1'')) = 1"
  by (simp add: generate_report_def report_body_def failing_env_def example_db_def
      select_session_def)

end
